theory Spec2Isabelle
  imports Main "HOL-Library.Stream"
begin

section \<open>Python strings\<close>

text \<open>
  Python \<open>str\<close> values are modelled as \<open>string\<close>. The helpers below are the string
  methods the scripts call: \<open>s.startswith(p)\<close>, \<open>s.endswith(p)\<close>, \<open>sub in s\<close>,
  \<open>s.lower()\<close>, \<open>s.split(sep)\<close>, \<open>s.replace(old, new)\<close> and \<open>str(i)\<close> for an
  integer inside an f-string. A \<open>string\<close> holds the UTF-8 bytes of the text; the
  patterns that the scripts search for are ASCII, and looking for an ASCII pattern
  in the bytes gives what looking for it in the code points gives.
\<close>

definition dquote :: char where
  "dquote = CHR 0x22"

definition startswith :: "string \<Rightarrow> string \<Rightarrow> bool" where
  "startswith s p = (take (length p) s = p)"

definition endswith :: "string \<Rightarrow> string \<Rightarrow> bool" where
  "endswith s p = (length p \<le> length s \<and> drop (length s - length p) s = p)"

fun in_str :: "string \<Rightarrow> string \<Rightarrow> bool" where
  "in_str sub [] = (sub = [])"
| "in_str sub (c # cs) = (startswith (c # cs) sub \<or> in_str sub cs)"

text \<open>
  \<open>s.lower()\<close> on the ASCII letters. The scripts only compare the result with
  \<open>'yes'\<close>, and no character other than an ASCII capital has \<open>y\<close>, \<open>e\<close> or \<open>s\<close> as
  its lower case.
\<close>

definition lower_char :: "char \<Rightarrow> char" where
  "lower_char c =
     (case map_of (zip ''ABCDEFGHIJKLMNOPQRSTUVWXYZ'' ''abcdefghijklmnopqrstuvwxyz'') c of
        Some l \<Rightarrow> l
      | None \<Rightarrow> c)"

definition lower :: "string \<Rightarrow> string" where
  "lower s = map lower_char s"

fun str_nat :: "nat \<Rightarrow> string" where
  "str_nat n =
     (if n < 10 then [''0123456789'' ! n] else str_nat (n div 10) @ [''0123456789'' ! (n mod 10)])"

definition str_int :: "int \<Rightarrow> string" where
  "str_int i = (if i < 0 then CHR ''-'' # str_nat (nat (- i)) else str_nat (nat i))"




section \<open>Cloudflare records and Route 53 changes\<close>

text \<open>
  A Cloudflare DNS record is the JSON object of the \<open>dns_records\<close> listing. The keys
  \<open>type\<close>, \<open>name\<close> and \<open>content\<close> are read with \<open>cf_record[...]\<close>; \<open>ttl\<close> and
  \<open>priority\<close> are read with \<open>cf_record.get(key, default)\<close> and may be absent;
  \<open>id\<close> is the provider's identifier of the record.
\<close>

record cf_record =
  cf_id :: string
  cf_type :: string
  cf_name :: string
  cf_content :: string
  cf_ttl :: "int option"
  cf_priority :: "int option"

text \<open>
  A Route 53 change is the dict \<open>{'Action': ..., 'ResourceRecordSet': {...}}\<close>; each
  element \<open>{'Value': v}\<close> of \<open>ResourceRecords\<close> is represented by its value \<open>v\<close>.
\<close>

record resource_record_set =
  Name :: string
  Type :: string
  TTL :: int
  ResourceRecords :: "string list"

record change =
  Action :: string
  ResourceRecordSet :: resource_record_set

subsection \<open>sync_dns_records.py: resolve_railway_cname, cloudflare_to_route53_record\<close>

text \<open>
  \<open>socket.gethostbyname\<close> is the parameter \<open>gethostbyname\<close>: \<open>Some ip\<close> when the
  lookup answers, \<open>None\<close> when it raises. The bare \<open>except:\<close> of
  \<open>resolve_railway_cname\<close> turns every exception into the return value \<open>None\<close>.
\<close>

definition resolve_railway_cname ::
  "(string \<Rightarrow> string option) \<Rightarrow> string \<Rightarrow> string \<Rightarrow> int \<Rightarrow> change option" where
  "resolve_railway_cname gethostbyname name content ttl =
     (case gethostbyname content of
        Some ip \<Rightarrow>
          Some \<lparr>Action = ''UPSERT'',
                ResourceRecordSet = \<lparr>Name = name, Type = ''A'', TTL = ttl, ResourceRecords = [ip]\<rparr>\<rparr>
      | None \<Rightarrow> None)"

definition get_ttl :: "cf_record \<Rightarrow> int" where
  "get_ttl cf = (case cf_ttl cf of Some t \<Rightarrow> t | None \<Rightarrow> 300)"

definition get_priority :: "cf_record \<Rightarrow> int" where
  "get_priority cf = (case cf_priority cf of Some p \<Rightarrow> p | None \<Rightarrow> 10)"

definition r53_name :: "cf_record \<Rightarrow> string \<Rightarrow> string" where
  "r53_name cf zone_name =
     (if cf_name cf = zone_name then zone_name @ ''.''
      else if endswith (cf_name cf) zone_name then cf_name cf @ ''.''
      else cf_name cf)"

definition txt_value :: "string \<Rightarrow> string" where
  "txt_value content0 =
     (let content1 = (if \<not> startswith content0 [dquote] then [dquote] @ content0 @ [dquote]
                      else content0);
          content2 = (if \<not> endswith content1 [dquote] then content1 @ [dquote] else content1)
      in content2)"

definition cloudflare_to_route53_record ::
  "(string \<Rightarrow> string option) \<Rightarrow> cf_record \<Rightarrow> string \<Rightarrow> change option" where
  "cloudflare_to_route53_record gethostbyname cf zone_name =
     (if cf_type cf \<in> set [''NS'', ''SOA''] then None
      else
        let name = r53_name cf zone_name;
            result = (if cf_type cf = ''CNAME'' \<and> in_str ''railway.app'' (cf_content cf)
                      then resolve_railway_cname gethostbyname name (cf_content cf) (get_ttl cf)
                      else None)
        in case result of
             Some r \<Rightarrow> Some r
           | None \<Rightarrow>
               let rrs = \<lparr>Name = name, Type = cf_type cf, TTL = get_ttl cf,
                          ResourceRecords = [cf_content cf]\<rparr>;
                   rrs' = (if cf_type cf = ''MX''
                           then rrs\<lparr>ResourceRecords := [str_int (get_priority cf) @ '' '' @ cf_content cf]\<rparr>
                           else if cf_type cf = ''TXT''
                           then rrs\<lparr>ResourceRecords := [txt_value (cf_content cf)]\<rparr>
                           else rrs)
               in Some \<lparr>Action = ''UPSERT'', ResourceRecordSet = rrs'\<rparr>)"

section \<open>Exceptions and external calls\<close>

text \<open>
  A raised exception is a value: its class, which decides the \<open>except\<close> clause that
  catches it, and its message \<open>str(e)\<close>. All classes listed here derive from
  \<open>Exception\<close>, so that \<open>except Exception\<close> catches them, but for
  \<open>KeyboardInterrupt\<close>, which derives from \<open>BaseException\<close> only and which a call
  raises when the operator interrupts it. \<open>RequestException\<close> stands for every class
  of the \<open>requests\<close> library that derives from it, as \<open>HTTPError\<close> and
  \<open>ConnectionError\<close> do, and \<open>JSONDecodeError\<close> for the error of \<open>json.loads\<close>.
  A call of an external collaborator (a
  subprocess, an HTTP request, an SDK call, \<open>input\<close>) is a value of type
  \<open>exn + 'a\<close>: the exception it raises or the value it returns.
\<close>

datatype exn_class =
  CalledProcessError | FileNotFoundError | ValueError | TypeError | JSONDecodeError | IndexError
  | RequestException | ClientError | EOFError | SyntaxError | Exception | KeyboardInterrupt

datatype exn = Raise (exn_class: exn_class) (str_exn: string)

text \<open>What \<open>except Exception\<close> catches.\<close>

definition is_Exception :: "exn \<Rightarrow> bool" where
  "is_Exception e = (exn_class e \<noteq> KeyboardInterrupt)"

text \<open>The JSON body of a Cloudflare API reply: the keys \<open>success\<close> and \<open>result\<close>.\<close>

record 'a reply =
  success :: bool
  result :: "'a list"

text \<open>Truthiness of a value that is \<open>None\<close> or a \<open>str\<close>.\<close>

definition truthy :: "string option \<Rightarrow> bool" where
  "truthy v = (case v of None \<Rightarrow> False | Some s \<Rightarrow> s \<noteq> [])"

subsection \<open>sync_dns_records.py: get_cloudflare_token\<close>

text \<open>
  \<open>kubectl\<close> is \<open>subprocess.run([...], capture_output=True, text=True, check=True)\<close>:
  the exception it raises (\<open>CalledProcessError\<close> on a non-zero exit status, an
  \<open>OSError\<close> such as \<open>FileNotFoundError\<close> when the program cannot be started) or its
  standard output. \<open>decode_secret out\<close> is
  \<open>base64.b64decode(out.strip()).decode('utf-8')\<close>, and \<open>environ\<close> is \<open>os.environ\<close>.
  Only \<open>subprocess.CalledProcessError\<close> is caught. The other scripts that talk to
  Cloudflare define the same function with the same body.
\<close>

definition get_cloudflare_token ::
  "(exn + string) \<Rightarrow> (string \<Rightarrow> exn + string) \<Rightarrow> (string \<rightharpoonup> string) \<Rightarrow> exn + string option" where
  "get_cloudflare_token kubectl decode_secret environ =
     (case (case kubectl of
              Inl e \<Rightarrow> Inl e
            | Inr stdout \<Rightarrow>
                (case decode_secret stdout of
                   Inl e \<Rightarrow> Inl e
                 | Inr token \<Rightarrow> Inr (Some token))) of
        Inl e \<Rightarrow>
          if exn_class e = CalledProcessError then Inr (environ ''CLOUDFLARE_API_TOKEN'')
          else Inl e
      | Inr token \<Rightarrow> Inr token)"

subsection \<open>sync_dns_records.py: get_cloudflare_records\<close>

text \<open>
  \<open>get_zones name\<close> is the zone lookup (\<open>requests.get\<close>, \<open>raise_for_status\<close>,
  \<open>response.json()\<close>), each zone of the result represented by its \<open>id\<close>;
  \<open>get_dns zone_id\<close> is the listing of the zone's records. The bearer token only
  travels in the request headers.
\<close>

definition get_cloudflare_records ::
  "(string \<Rightarrow> exn + string reply) \<Rightarrow> (string \<Rightarrow> exn + cf_record reply) \<Rightarrow> string
     \<Rightarrow> exn + cf_record list" where
  "get_cloudflare_records get_zones get_dns zone_name =
     (case get_zones zone_name of
        Inl e \<Rightarrow> Inl e
      | Inr data \<Rightarrow>
          if \<not> success data \<or> result data = [] then Inl (Raise Exception ''Zone not found'')
          else
            (let zone_id = hd (result data)
             in case get_dns zone_id of
                  Inl e \<Rightarrow> Inl e
                | Inr data' \<Rightarrow>
                    if \<not> success data' then Inl (Raise Exception ''Failed to get DNS records'')
                    else Inr (result data')))"

subsection \<open>sync_dns_records.py: sync_to_route53\<close>

text \<open>\<open>range(start, stop, step)\<close> for a positive step, and the slice \<open>xs[i:j]\<close>.\<close>

function py_range :: "nat \<Rightarrow> nat \<Rightarrow> nat \<Rightarrow> nat list" where
  "py_range i stop step =
     (if 0 < step \<and> i < stop then i # py_range (i + step) stop step else [])"
  by pat_completeness auto
termination
  by (relation "measure (\<lambda>(i, stop, step). stop - i)") auto

declare py_range.simps [simp del]

definition slice :: "'a list \<Rightarrow> nat \<Rightarrow> nat \<Rightarrow> 'a list" where
  "slice xs i j = take (j - i) (drop i xs)"

definition batch_size :: nat where
  "batch_size = 100"

definition batches :: "'a list \<Rightarrow> 'a list list" where
  "batches records =
     map (\<lambda>i. slice records i (i + batch_size)) (py_range 0 (length records) batch_size)"

text \<open>
  \<open>change_resource_record_sets zone_id batch\<close> is the call on the client that
  \<open>boto3.client('route53')\<close> returns: \<open>None\<close> when the call returns, \<open>Some e\<close>
  when it raises. The loop over the batches stops at the first
  call that raises. The result is the list of the calls made, as pairs of
  \<open>HostedZoneId\<close> and the \<open>Changes\<close> of the \<open>ChangeBatch\<close>, and the exception
  that ended the loop, if any.
\<close>

fun send_batches ::
  "(string \<Rightarrow> change list \<Rightarrow> exn option) \<Rightarrow> string \<Rightarrow> change list list
     \<Rightarrow> (string \<times> change list) list \<times> exn option" where
  "send_batches change_resource_record_sets zone_id [] = ([], None)"
| "send_batches change_resource_record_sets zone_id (batch # rest) =
     (case change_resource_record_sets zone_id batch of
        Some e \<Rightarrow> ([(zone_id, batch)], Some e)
      | None \<Rightarrow>
          (let (calls, r) = send_batches change_resource_record_sets zone_id rest
           in ((zone_id, batch) # calls, r)))"

definition sync_to_route53 ::
  "(string \<Rightarrow> change list \<Rightarrow> exn option) \<Rightarrow> change list \<Rightarrow> string
     \<Rightarrow> (string \<times> change list) list \<times> exn option" where
  "sync_to_route53 change_resource_record_sets records zone_id =
     send_batches change_resource_record_sets zone_id (batches records)"

subsection \<open>sync_dns_records.py: main\<close>

definition ZONE_NAME :: string where
  "ZONE_NAME = ''rinawarptech.com''"

definition ROUTE53_ZONE_ID :: string where
  "ROUTE53_ZONE_ID = ''Z0713202NJO49ZHK5ER1''"

text \<open>
  The conversion loop of \<open>main\<close>, with its two accumulators \<open>r53_records\<close> and
  \<open>skipped_records\<close>; \<open>continue\<close> is the first branch.
\<close>

fun convert_loop ::
  "(string \<Rightarrow> string option) \<Rightarrow> cf_record list \<Rightarrow> change list \<Rightarrow> cf_record list
     \<Rightarrow> change list \<times> cf_record list" where
  "convert_loop gethostbyname [] r53_records skipped_records = (r53_records, skipped_records)"
| "convert_loop gethostbyname (record # rest) r53_records skipped_records =
     (if cf_type record = ''CNAME'' \<and> cf_name record = ZONE_NAME
      then convert_loop gethostbyname rest r53_records (skipped_records @ [record])
      else
        (case cloudflare_to_route53_record gethostbyname record ZONE_NAME of
           Some r53_record \<Rightarrow>
             convert_loop gethostbyname rest (r53_records @ [r53_record]) skipped_records
         | None \<Rightarrow> convert_loop gethostbyname rest r53_records skipped_records))"

section \<open>cleanup_dns.py: the certificate polling loop\<close>

text \<open>
  The \<open>while True\<close> loop at the end of \<open>main\<close>. Each element of the stream is what
  one round of \<open>aws acm describe-certificate\<close> gives: the exception raised by
  \<open>subprocess.run\<close>, \<open>json.loads\<close> or the subscripts, or the value of
  \<open>cert_data['Certificate']['Status']\<close>. The loop has no bound, so the function is
  partial: \<open>None\<close> is a run that never leaves the loop. The result is the branch that
  left the loop and the trace of the describe calls and sleeps performed; an exception
  that \<open>except Exception\<close> does not catch leaves the loop by propagating. Each
  \<open>time.sleep(30)\<close> returns here; \<open>poll_loop\<close> below is the loop with sleeps that
  can be interrupted.

  \<open>update_cloudflare_dns.py\<close> holds a second copy of the loop, with the sleep after
  the \<open>try\<close> statement. That file is cut at line 76, in the middle of a function
  signature: the head of its \<open>main\<close> is missing, the module does not compile, and
  its imports do not bind the name \<open>time\<close> that the loop calls. The copy is not
  modelled.
\<close>

datatype poll_event = Describe_certificate | Sleep nat

datatype poll_result = Validated | Validation_failed | Check_error exn | Propagated exn

partial_function (option) poll_certificate ::
  "poll_event list \<Rightarrow> (exn + string) stream \<Rightarrow> (poll_result \<times> poll_event list) option" where
  "poll_certificate trace describe =
     (case shd describe of
        Inl e \<Rightarrow>
          if is_Exception e then Some (Check_error e, trace @ [Describe_certificate])
          else Some (Propagated e, trace @ [Describe_certificate])
      | Inr status \<Rightarrow>
          if status = ''ISSUED'' then Some (Validated, trace @ [Describe_certificate])
          else if status = ''FAILED'' then Some (Validation_failed, trace @ [Describe_certificate])
          else poll_certificate (trace @ [Describe_certificate, Sleep 30]) (stl describe))"

text \<open>
  The rounds that leave the loop: an exception, and the two \<open>break\<close> statements
  for the statuses \<open>ISSUED\<close> and \<open>FAILED\<close>.
\<close>

definition leaves_loop :: "exn + string \<Rightarrow> bool" where
  "leaves_loop round =
     (case round of Inl e \<Rightarrow> True | Inr status \<Rightarrow> status = ''ISSUED'' \<or> status = ''FAILED'')"

definition observations :: "poll_event list \<Rightarrow> nat" where
  "observations trace = length (filter (\<lambda>ev. ev = Describe_certificate) trace)"

definition waits :: "poll_event list \<Rightarrow> nat" where
  "waits trace =
     length (filter (\<lambda>ev. case ev of Sleep seconds \<Rightarrow> True | Describe_certificate \<Rightarrow> False) trace)"

section \<open>Create-or-update of a Cloudflare record\<close>

text \<open>
  The JSON body the scripts send for a record, and the requests they make to the
  \<open>dns_records\<close> and \<open>pagerules\<close> endpoints of a zone. \<open>http request\<close> is the
  request followed by \<open>raise_for_status()\<close> and \<open>response.json()\<close>: the exception
  raised or the body of the reply. The headers are the same for every request and are
  left out.
\<close>

record dns_payload =
  p_type :: string
  p_name :: string
  p_content :: string
  p_proxied :: bool
  p_ttl :: "int option"

datatype request =
  Get_dns_records string "(string \<times> string) option"
  | Get_dns_records_of_type string string
  | Put_dns_record string string dns_payload
  | Post_dns_record string dns_payload
  | Delete_dns_record string string
  | Post_pagerule string string string

subsection \<open>update_cloudflare_dns.py: update_dns_record\<close>

text \<open>
  The lookup passes \<open>name\<close> and \<open>type\<close> as query parameters. The result is the list
  of the requests made, in order, and the value returned or the exception raised.
\<close>

definition update_dns_record_cloudflare ::
  "(request \<Rightarrow> exn + cf_record reply) \<Rightarrow> string \<Rightarrow> dns_payload
     \<Rightarrow> request list \<times> (exn + cf_record reply)" where
  "update_dns_record_cloudflare http zone_id record =
     (let lookup = Get_dns_records zone_id (Some (p_name record, p_type record))
      in case http lookup of
           Inl e \<Rightarrow> ([lookup], Inl e)
         | Inr data \<Rightarrow>
             if success data \<and> result data \<noteq> [] then
               (let record_id = cf_id (hd (result data))
                in ([lookup, Put_dns_record zone_id record_id record],
                    http (Put_dns_record zone_id record_id record)))
             else ([lookup, Post_dns_record zone_id record], http (Post_dns_record zone_id record)))"

subsection \<open>update_cloudfront_dns.py: update_dns_record\<close>

text \<open>
  The lookup lists every record of the zone and scans the list for the first record
  with the full domain name and the type of the payload (the \<open>for\<close> loop with its
  \<open>break\<close>); \<open>record_id\<close> stays \<open>None\<close> when the scan finds nothing.
\<close>

fun find_record_id :: "string \<Rightarrow> string \<Rightarrow> cf_record list \<Rightarrow> string option" where
  "find_record_id full_name type [] = None"
| "find_record_id full_name type (r # rs) =
     (if cf_name r = full_name \<and> cf_type r = type then Some (cf_id r)
      else find_record_id full_name type rs)"

definition full_name_of :: "dns_payload \<Rightarrow> string" where
  "full_name_of record =
     (if p_name record = ''rinawarptech.com'' then p_name record
      else p_name record @ ''.rinawarptech.com'')"

definition update_dns_record_cloudfront ::
  "(request \<Rightarrow> exn + cf_record reply) \<Rightarrow> string \<Rightarrow> dns_payload
     \<Rightarrow> request list \<times> (exn + cf_record reply)" where
  "update_dns_record_cloudfront http zone_id record =
     (let lookup = Get_dns_records zone_id None
      in case http lookup of
           Inl e \<Rightarrow> ([lookup], Inl e)
         | Inr records \<Rightarrow>
             (let record_id = find_record_id (full_name_of record) (p_type record) (result records)
              in if truthy record_id then
                   ([lookup, Put_dns_record zone_id (the record_id) record],
                    http (Put_dns_record zone_id (the record_id) record))
                 else
                   ([lookup, Post_dns_record zone_id record],
                    http (Post_dns_record zone_id record))))"

section \<open>Exit status of the scripts\<close>

text \<open>
  What a run of a script leaves behind: the error messages it prints (by its
  exception handlers, before its early exits and, in \<open>run_aws_command\<close>, on a failed
  command; the progress output and the reports on the replies are not recorded) and
  the exit status of the process. A script that returns from its last statement
  exits with status 0. An exception that no handler catches ends the interpreter
  after a traceback on the standard error stream: with status 1 for a class that
  derives from \<open>Exception\<close>; for \<open>KeyboardInterrupt\<close> CPython 3.8 and later ends the
  process through the signal SIGINT, which a shell reports as status 130 (earlier
  versions exit with status 1). The imports of a script are taken to succeed.
\<close>

record process =
  errors_printed :: "string list"
  exit_code :: int

definition finished :: "string list \<Rightarrow> process" where
  "finished printed = \<lparr>errors_printed = printed, exit_code = 0\<rparr>"

definition uncaught :: "string list \<Rightarrow> exn \<Rightarrow> process" where
  "uncaught printed e =
     \<lparr>errors_printed = printed, exit_code = (if is_Exception e then 1 else 130)\<rparr>"

text \<open>
  The handler \<open>except Exception as e: print(f'Error: {e}')\<close> that ends several
  \<open>main\<close> functions, applied to the exception that leaves the \<open>try\<close> block.
\<close>

definition handle_error :: "string list \<Rightarrow> exn \<Rightarrow> process" where
  "handle_error printed e =
     (if is_Exception e then finished (printed @ [''Error: '' @ str_exn e])
      else uncaught printed e)"

text \<open>
  The loop \<open>for x in xs: try: body(x) ... except Exception as e: print(...)\<close>:
  what the handlers print and the exception that leaves the loop, if any.
\<close>

fun for_each_guarded ::
  "('a \<Rightarrow> exn + 'b) \<Rightarrow> ('a \<Rightarrow> exn \<Rightarrow> string list) \<Rightarrow> 'a list \<Rightarrow> string list \<times> exn option" where
  "for_each_guarded body handler [] = ([], None)"
| "for_each_guarded body handler (x # xs) =
     (case body x of
        Inl e \<Rightarrow>
          if is_Exception e then
            (let (printed, r) = for_each_guarded body handler xs in (handler x e @ printed, r))
          else ([], Some e)
      | Inr v \<Rightarrow> for_each_guarded body handler xs)"


subsection \<open>The collaborators of the scripts\<close>

text \<open>
  The output of a finished subprocess, and the documents that the scripts read from
  the output of the AWS CLI. A decoded document is taken to be an object with the
  keys that the scripts subscript; a decoder that raises stands for every other
  output.
\<close>

record completed =
  returncode :: int
  stdout :: string
  stderr :: string

record distribution =
  Status :: string
  Enabled :: bool

datatype json = JBool bool | JInt int | JStr string | JList "json list" | JDict "(string \<times> json) list"

record origin =
  DomainName :: string
  OriginPath :: "string option"

record distribution_config =
  Origins_Items :: "origin list"
  DefaultCacheBehavior :: "string \<rightharpoonup> json"

record config_document =
  ETag :: string
  DistributionConfig :: distribution_config

text \<open>
  A response of the \<open>requests\<close> library: \<open>json_body\<close> is what \<open>response.json()\<close>
  returns or raises, and \<open>status_error\<close> is the exception that
  \<open>response.raise_for_status()\<close> raises, if any.
\<close>

record 'a response =
  json_body :: "exn + 'a reply"
  status_error :: "exn option"

text \<open>
  Everything outside the scripts. Calls that a script makes once, or that differ in
  their arguments, are functions of the arguments; calls that a script repeats are
  streams, the n-th element being the n-th call.
  \<^item> \<open>w_argv\<close> is \<open>sys.argv\<close>, and \<open>w_pep701\<close> says that the interpreter accepts a
    quote of the enclosing kind inside an f-string (Python 3.12 and later).
  \<^item> \<open>w_kubectl\<close>, \<open>w_decode_secret\<close> and \<open>w_environ\<close> are the collaborators of
    \<open>get_cloudflare_token\<close>.
  \<^item> \<open>w_get_zones\<close> and \<open>w_get_dns\<close> are the zone lookup and the listing of
    \<open>get_cloudflare_records\<close>; \<open>w_http n\<close> answers the requests of the n-th step of a
    script (the scripts whose requests all differ have the single step 0);
    \<open>w_zones_request name\<close> and \<open>w_put_nameservers zone_id value\<close> are the
    \<open>requests.get\<close> on the zones and the \<open>requests.put\<close> on
    \<open>settings/vanity_nameservers\<close> of \<open>update_nameservers.py\<close>, which decodes the
    body of a response before it checks the status.
  \<^item> \<open>w_cloudflare token\<close> is the constructor \<open>Cloudflare(token=token)\<close>,
    \<open>w_zones_get\<close> is \<open>cf.zones.get\<close>, each zone represented by its \<open>id\<close>, and
    \<open>w_dns_records_post\<close> is \<open>cf.zones.dns_records.post\<close>.
  \<^item> \<open>w_gethostbyname\<close> is \<open>socket.gethostbyname\<close>, \<open>w_input\<close> is \<open>input\<close>,
    \<open>w_change_resource_record_sets\<close> is the Route 53 call, and
    \<open>w_create_distribution domain origin\<close> is \<open>boto3.client('cloudfront')\<close> followed
    by \<open>create_distribution\<close> with the configuration built from the two arguments
    and by the subscripts that read the domain name of the new distribution.
  \<^item> \<open>w_describe\<close> gives the rounds of the certificate polling loop and \<open>w_sleeps\<close>
    the calls of \<open>time.sleep\<close>: \<open>None\<close> when the sleep returns.
  \<^item> \<open>w_shell\<close> gives the calls of \<open>subprocess.run(command.split(), ...)\<close> without
    \<open>check\<close>, as functions of the command line; \<open>w_run_command\<close> gives the calls of
    \<open>run_command\<close> of \<open>monitor_migration.py\<close>, that is the same call followed by
    \<open>.stdout.strip()\<close>.
  \<^item> \<open>w_loads_distribution\<close>, \<open>w_loads_config\<close> and \<open>w_loads_certificate\<close> are
    \<open>json.loads\<close> on the output of \<open>get-distribution\<close> and \<open>update-distribution\<close>, of
    \<open>get-distribution-config\<close>, and of \<open>describe-certificate\<close> followed by the
    subscripts \<open>['Certificate']['Status']\<close>; \<open>w_json_dumps\<close> is \<open>json.dumps\<close> with
    \<open>indent=2\<close>; \<open>w_write_config\<close> opens \<open>temp_config.json\<close> and dumps the
    configuration into it; \<open>w_requests_get url\<close> is \<open>requests.get(url, timeout=10)\<close>,
    giving the status code.
\<close>

record world =
  w_argv :: "string list"
  w_pep701 :: bool
  w_kubectl :: "exn + string"
  w_decode_secret :: "string \<Rightarrow> exn + string"
  w_environ :: "string \<rightharpoonup> string"
  w_get_zones :: "string \<Rightarrow> exn + string reply"
  w_get_dns :: "string \<Rightarrow> exn + cf_record reply"
  w_http :: "nat \<Rightarrow> request \<Rightarrow> exn + cf_record reply"
  w_zones_request :: "string \<Rightarrow> exn + string response"
  w_put_nameservers :: "string \<Rightarrow> string list \<Rightarrow> exn + string response"
  w_cloudflare :: "string \<Rightarrow> exn option"
  w_zones_get :: "string \<Rightarrow> exn + string list"
  w_dns_records_post :: "string \<Rightarrow> dns_payload \<Rightarrow> exn option"
  w_gethostbyname :: "string \<Rightarrow> string option"
  w_input :: "exn + string"
  w_change_resource_record_sets :: "string \<Rightarrow> change list \<Rightarrow> exn option"
  w_create_distribution :: "string \<Rightarrow> string \<Rightarrow> exn + string"
  w_describe :: "(exn + string) stream"
  w_sleeps :: "exn option stream"
  w_shell :: "(string \<Rightarrow> exn + completed) stream"
  w_run_command :: "(string \<Rightarrow> exn + string) stream"
  w_loads_distribution :: "string \<Rightarrow> exn + distribution"
  w_loads_config :: "string \<Rightarrow> exn + config_document"
  w_loads_certificate :: "string \<Rightarrow> exn + string"
  w_json_dumps :: "dns_payload \<Rightarrow> string"
  w_write_config :: "distribution_config \<Rightarrow> exn option"
  w_requests_get :: "string \<Rightarrow> exn + int"

definition token_of :: "world \<Rightarrow> exn + string option" where
  "token_of w = get_cloudflare_token (w_kubectl w) (w_decode_secret w) (w_environ w)"

subsection \<open>cf-dns.py\<close>



subsection \<open>sync_dns_records.py\<close>

text \<open>The body of the \<open>try\<close> statement of \<open>main\<close>: the exception that leaves it, if any.\<close>

definition sync_main_try :: "world \<Rightarrow> exn option" where
  "sync_main_try w =
     (case token_of w of
        Inl e \<Rightarrow> Some e
      | Inr token \<Rightarrow>
          if \<not> truthy token then Some (Raise Exception ''Cloudflare API token not found'')
          else
            (case get_cloudflare_records (w_get_zones w) (w_get_dns w) ZONE_NAME of
               Inl e \<Rightarrow> Some e
             | Inr cf_records \<Rightarrow>
                 (let (r53_records, skipped_records) =
                        convert_loop (w_gethostbyname w) cf_records [] []
                  in case w_input w of
                       Inl e \<Rightarrow> Some e
                     | Inr response \<Rightarrow>
                         if lower response \<noteq> ''yes'' then None
                         else snd (sync_to_route53 (w_change_resource_record_sets w)
                                     r53_records ROUTE53_ZONE_ID))))"

definition sync_main :: "world \<Rightarrow> process" where
  "sync_main w =
     (case sync_main_try w of
        Some e \<Rightarrow> handle_error [] e
      | None \<Rightarrow> finished [])"

subsection \<open>setup_cloudflare_redirects.py\<close>






subsection \<open>cleanup_dns.py\<close>





text \<open>
  The polling loop with sleeps that can raise: the sleep stands inside the \<open>try\<close>
  statement, so that its exception is handled like the one of the describe call.
\<close>

partial_function (option) poll_loop ::
  "poll_event list \<Rightarrow> (exn + string) stream \<Rightarrow> exn option stream
     \<Rightarrow> (poll_result \<times> poll_event list) option" where
  "poll_loop trace describe sleeps =
     (case shd describe of
        Inl e \<Rightarrow>
          if is_Exception e then Some (Check_error e, trace @ [Describe_certificate])
          else Some (Propagated e, trace @ [Describe_certificate])
      | Inr status \<Rightarrow>
          if status = ''ISSUED'' then Some (Validated, trace @ [Describe_certificate])
          else if status = ''FAILED'' then Some (Validation_failed, trace @ [Describe_certificate])
          else
            (case shd sleeps of
               Some e \<Rightarrow>
                 if is_Exception e
                 then Some (Check_error e, trace @ [Describe_certificate, Sleep 30])
                 else Some (Propagated e, trace @ [Describe_certificate, Sleep 30])
             | None \<Rightarrow>
                 poll_loop (trace @ [Describe_certificate, Sleep 30]) (stl describe) (stl sleeps)))"


subsection \<open>update_cloudflare_dns.py\<close>


subsection \<open>update_cloudfront_dns.py\<close>




subsection \<open>update_nameservers.py\<close>



subsection \<open>setup_cloudfront.py\<close>



subsection \<open>run_aws_command\<close>

text \<open>
  \<open>monitor_deployment.py\<close>, \<open>update_cloudfront_origins.py\<close> and
  \<open>fix_cloudfront_monorepo.py\<close> define this function with the same body. The result
  is what it prints, the document (\<open>None\<close> for a failed command or an output that is
  not JSON) or the exception that leaves it, and the rest of the shell. Only
  \<open>json.JSONDecodeError\<close> is caught, and the call of \<open>subprocess.run\<close> has no handler.
\<close>

definition run_aws_command ::
  "(string \<Rightarrow> exn + 'j) \<Rightarrow> string \<Rightarrow> (string \<Rightarrow> exn + completed) stream
     \<Rightarrow> string list \<times> (exn + 'j option) \<times> (string \<Rightarrow> exn + completed) stream" where
  "run_aws_command json_loads command shell =
     (case shd shell command of
        Inl e \<Rightarrow> ([], Inl e, stl shell)
      | Inr finished_process \<Rightarrow>
          if returncode finished_process \<noteq> 0 then
            ([''Error running command: '' @ stderr finished_process], Inr None, stl shell)
          else
            (case json_loads (stdout finished_process) of
               Inl e \<Rightarrow>
                 if exn_class e = JSONDecodeError then
                   ([''Error parsing JSON: '' @ stdout finished_process], Inr None, stl shell)
                 else ([], Inl e, stl shell)
             | Inr document \<Rightarrow> ([], Inr (Some document), stl shell)))"

subsection \<open>monitor_deployment.py\<close>







subsection \<open>monitor_migration.py\<close>





subsection \<open>update_cloudfront_origins.py and fix_cloudfront_monorepo.py\<close>









text \<open>
  The \<open>for\<close> loop inside the \<open>while\<close> loop of both \<open>main\<close> functions: a failed
  command is skipped by \<open>continue\<close> and leaves the flag \<open>all_deployed\<close> as it is.
\<close>

fun status_round ::
  "world \<Rightarrow> string list \<Rightarrow> bool \<Rightarrow> (string \<Rightarrow> exn + completed) stream
     \<Rightarrow> string list \<times> (exn + bool) \<times> (string \<Rightarrow> exn + completed) stream" where
  "status_round w [] all_deployed shell = ([], Inr all_deployed, shell)"
| "status_round w (dist_id # rest) all_deployed shell =
     (case run_aws_command (w_loads_distribution w)
             (''aws cloudfront get-distribution --id '' @ dist_id) shell of
        (printed, Inl e, shell') \<Rightarrow> (printed, Inl e, shell')
      | (printed, Inr document, shell') \<Rightarrow>
          (case status_round w rest
                  (case document of
                     None \<Rightarrow> all_deployed
                   | Some d \<Rightarrow> if Status d \<noteq> ''Deployed'' then False else all_deployed)
                  shell' of
             (printed', r, shell'') \<Rightarrow> (printed @ printed', r, shell'')))"





subsection \<open>Exits caused by an interrupt only\<close>


section \<open>The target zone\<close>

text \<open>
  Modelled from the spec: Route 53 is not code of this repository. The target zone is a
  map keyed by (name, type), and a change with action \<open>UPSERT\<close> stores its record set
  under the key of that record set. The scripts emit no other action; a change with
  another action leaves the map as it is.
\<close>

type_synonym zone = "(string \<times> string) \<rightharpoonup> resource_record_set"

definition apply_change :: "change \<Rightarrow> zone \<Rightarrow> zone" where
  "apply_change c z =
     (if Action c = ''UPSERT''
      then z((Name (ResourceRecordSet c), Type (ResourceRecordSet c)) \<mapsto> ResourceRecordSet c)
      else z)"

definition apply_changes :: "change list \<Rightarrow> zone \<Rightarrow> zone" where
  "apply_changes cs z = fold apply_change cs z"

section \<open>The quoting of TXT values, in the words of the specification\<close>

text \<open>
  A value is wrapped in exactly one pair of double quotes when it starts with a double
  quote, ends with another one, and what lies between them neither starts nor ends
  with a double quote.
\<close>

definition quoted_once :: "string \<Rightarrow> bool" where
  "quoted_once v =
     (2 \<le> length v \<and> hd v = dquote \<and> last v = dquote
      \<and> \<not> startswith (butlast (tl v)) [dquote] \<and> \<not> endswith (butlast (tl v)) [dquote])"

section \<open>Concrete inputs\<close>

definition no_answer :: "string \<Rightarrow> string option" where
  "no_answer host = None"

definition one_answer :: "string \<Rightarrow> string option" where
  "one_answer host = (if host = ''548iv9i4.up.railway.app'' then Some ''203.0.113.7'' else None)"

definition no_answer_at_apex :: "string \<Rightarrow> string option" where
  "no_answer_at_apex host =
     (if host = ''548iv9i4.up.railway.app'' then Some ''203.0.113.7''
      else if host = ''63s6t4pd.up.railway.app'' then Some ''203.0.113.9''
      else None)"

definition docs_cname :: cf_record where
  "docs_cname =
     \<lparr>cf_id = ''372e67954025e0ba6aaa6d586b9e0b59'', cf_type = ''CNAME'',
      cf_name = ''docs.rinawarptech.com'', cf_content = ''548iv9i4.up.railway.app'',
      cf_ttl = Some 1, cf_priority = None\<rparr>"

definition apex_cname :: cf_record where
  "apex_cname =
     \<lparr>cf_id = ''023e105f4ecef8ad9ca31a8372d0c353'', cf_type = ''CNAME'',
      cf_name = ''rinawarptech.com'', cf_content = ''63s6t4pd.up.railway.app'',
      cf_ttl = Some 1, cf_priority = None\<rparr>"

definition apex_ns :: cf_record where
  "apex_ns =
     \<lparr>cf_id = ''9a7806061c88ada191ed06f989cc3dac'', cf_type = ''NS'',
      cf_name = ''rinawarptech.com'', cf_content = ''ns-1525.awsdns-62.org'',
      cf_ttl = Some 86400, cf_priority = None\<rparr>"

definition txt_plain :: cf_record where
  "txt_plain =
     \<lparr>cf_id = ''5a7805061c76ada191ed06f989cc3dac'', cf_type = ''TXT'',
      cf_name = ''rinawarptech.com'', cf_content = ''v=spf1 -all'',
      cf_ttl = None, cf_priority = None\<rparr>"

definition txt_trailing_quote :: cf_record where
  "txt_trailing_quote = txt_plain\<lparr>cf_content := ''abc'' @ [dquote]\<rparr>"

definition upsert_docs :: change where
  "upsert_docs =
     \<lparr>Action = ''UPSERT'',
      ResourceRecordSet = \<lparr>Name = ''docs.rinawarptech.com.'', Type = ''A'', TTL = 1,
                            ResourceRecords = [''203.0.113.7'']\<rparr>\<rparr>"

definition kubectl_missing :: "exn + string" where
  "kubectl_missing =
     Inl (Raise FileNotFoundError ''[Errno 2] No such file or directory: 'kubectl' '')"


definition decode_tok :: "string \<Rightarrow> exn + string" where
  "decode_tok s = (if s = ''dG9r'' then Inr ''tok'' else Inl (Raise ValueError ''Incorrect padding''))"

definition env_with_token :: "string \<rightharpoonup> string" where
  "env_with_token = [''CLOUDFLARE_API_TOKEN'' \<mapsto> ''tok'']"


definition always_ok :: "string \<Rightarrow> change list \<Rightarrow> exn option" where
  "always_ok zone_id batch = None"



































definition acm_record :: dns_payload where
  "acm_record =
     \<lparr>p_type = ''CNAME'', p_name = ''_87dcf068b52efd9d35831bcc920b95ff'',
      p_content = ''_805ceb83cfdb2e0600616d81ffac9513.xlfgrmvvlj.acm-validations.aws'',
      p_proxied = False, p_ttl = Some 300\<rparr>"

definition docs_payload :: dns_payload where
  "docs_payload =
     \<lparr>p_type = ''CNAME'', p_name = ''docs'', p_content = ''d1cabz99ab90wf.cloudfront.net'',
      p_proxied = True, p_ttl = Some 1\<rparr>"

definition acm_entry :: cf_record where
  "acm_entry =
     \<lparr>cf_id = ''f1aba936b94213e5b8dca0c0dbf1f9cc'', cf_type = ''CNAME'',
      cf_name = ''_87dcf068b52efd9d35831bcc920b95ff'',
      cf_content = ''_805ceb83cfdb2e0600616d81ffac9513.xlfgrmvvlj.acm-validations.aws'',
      cf_ttl = Some 300, cf_priority = None\<rparr>"

definition www_payload :: dns_payload where
  "www_payload =
     \<lparr>p_type = ''CNAME'', p_name = ''www'', p_content = ''d361asqhi0ugoo.cloudfront.net'',
      p_proxied = True, p_ttl = Some 1\<rparr>"

text \<open>
  A zone holding three records, served the way the provider documents the listing: the
  records that match the query parameters when there are any, all records otherwise.
\<close>

definition listing :: "request \<Rightarrow> exn + cf_record reply" where
  "listing request =
     (case request of
        Get_dns_records zone_id (Some (name, type)) \<Rightarrow>
          Inr \<lparr>success = True,
               result = filter (\<lambda>r. cf_name r = name \<and> cf_type r = type)
                          [apex_ns, docs_cname, acm_entry]\<rparr>
      | Get_dns_records zone_id None \<Rightarrow>
          Inr \<lparr>success = True, result = [apex_ns, docs_cname, acm_entry]\<rparr>
      | _ \<Rightarrow> Inr \<lparr>success = True, result = []\<rparr>)"

section \<open>The record reconciler\<close>

subsection \<open>Auxiliary facts\<close>

lemma convert_loop_filter:
  "convert_loop g rs acc sk =
     (acc @ List.map_filter (\<lambda>r. cloudflare_to_route53_record g r ZONE_NAME)
              (filter (\<lambda>r. \<not> (cf_type r = ''CNAME'' \<and> cf_name r = ZONE_NAME)) rs),
      sk @ filter (\<lambda>r. cf_type r = ''CNAME'' \<and> cf_name r = ZONE_NAME) rs)"
  by (induction rs arbitrary: acc sk) (auto simp: map_filter_def split: option.splits)

lemma ns_soa_none:
  "cf_type cf = ''NS'' \<or> cf_type cf = ''SOA'' \<Longrightarrow>
   cloudflare_to_route53_record g cf zone_name = None"
  by (auto simp: cloudflare_to_route53_record_def)

lemma conv_cong:
  "g (cf_content r) = g' (cf_content r) \<Longrightarrow>
   cloudflare_to_route53_record g r zone_name = cloudflare_to_route53_record g' r zone_name"
  by (auto simp: cloudflare_to_route53_record_def resolve_railway_cname_def Let_def
      split: option.splits)

lemma conv_not_cname:
  "cf_type r \<noteq> ''CNAME'' \<Longrightarrow>
   cloudflare_to_route53_record g r zone_name = cloudflare_to_route53_record g' r zone_name"
  by (simp add: cloudflare_to_route53_record_def)

lemma map_filter_agree:
  "(\<And>x. x \<in> set xs \<Longrightarrow> f x = f' x) \<Longrightarrow> List.map_filter f xs = List.map_filter f' xs"
  by (induction xs) (auto simp: map_filter_def)

lemma txt_value_cases:
  "txt_value c =
     (if startswith c [dquote] then (if endswith c [dquote] then c else c @ [dquote])
      else [dquote] @ c @ [dquote])"
  by (simp add: txt_value_def endswith_def Let_def)

lemma txt_value_starts: "startswith (txt_value c) [dquote]"
  by (cases c) (auto simp: txt_value_cases startswith_def)

lemma txt_value_ends: "endswith (txt_value c) [dquote]"
  by (auto simp: txt_value_cases endswith_def)

lemma txt_value_quoted_once:
  "\<not> startswith c [dquote] \<Longrightarrow> \<not> endswith c [dquote] \<Longrightarrow> quoted_once (txt_value c)"
  by (simp add: txt_value_cases quoted_once_def butlast_append)

subsection \<open>Railway CNAME records\<close>

text \<open>
  Claim C1 says that a CNAME record whose content contains \<open>railway.app\<close> is emitted
  as an A record holding the resolved address, and that nothing is emitted (the result
  is \<open>None\<close>) when the resolution fails. The second half does not hold: with a
  resolver that answers nothing, the record \<open>docs_cname\<close> is still emitted.
\<close>

theorem railway_cname_dropped_counterexample:
  "cloudflare_to_route53_record no_answer docs_cname ''rinawarptech.com'' \<noteq> None
   \<and> cloudflare_to_route53_record no_answer docs_cname ''rinawarptech.com'' =
       Some \<lparr>Action = ''UPSERT'',
             ResourceRecordSet = \<lparr>Name = ''docs.rinawarptech.com.'', Type = ''CNAME'', TTL = 1,
                                   ResourceRecords = [''548iv9i4.up.railway.app'']\<rparr>\<rparr>"
  by (simp add: cloudflare_to_route53_record_def resolve_railway_cname_def docs_cname_def
      no_answer_def startswith_def r53_name_def endswith_def get_ttl_def)

text \<open>
  Claim C1, amended: for a CNAME record whose content contains \<open>railway.app\<close>, the
  function emits an UPSERT of an A record whose single value is the resolved address
  when the resolution answers; when the resolution fails, \<open>resolve_railway_cname\<close>
  returns \<open>None\<close> and the function falls through to the ordinary conversion, which
  emits the record as a CNAME with its original content.
\<close>

theorem railway_cname_conversion:
  assumes "cf_type cf = ''CNAME''" and "in_str ''railway.app'' (cf_content cf)"
  shows "(\<forall>ip. g (cf_content cf) = Some ip \<longrightarrow>
            cloudflare_to_route53_record g cf zone_name =
              Some \<lparr>Action = ''UPSERT'',
                    ResourceRecordSet = \<lparr>Name = r53_name cf zone_name, Type = ''A'',
                                          TTL = get_ttl cf, ResourceRecords = [ip]\<rparr>\<rparr>)
       \<and> (g (cf_content cf) = None \<longrightarrow>
            resolve_railway_cname g (r53_name cf zone_name) (cf_content cf) (get_ttl cf) = None
            \<and> cloudflare_to_route53_record g cf zone_name =
              Some \<lparr>Action = ''UPSERT'',
                    ResourceRecordSet = \<lparr>Name = r53_name cf zone_name, Type = ''CNAME'',
                                          TTL = get_ttl cf, ResourceRecords = [cf_content cf]\<rparr>\<rparr>)"
  using assms by (simp add: cloudflare_to_route53_record_def resolve_railway_cname_def)

theorem railway_cname_conversion_witness:
  "cloudflare_to_route53_record one_answer docs_cname ''rinawarptech.com'' =
     Some \<lparr>Action = ''UPSERT'',
           ResourceRecordSet = \<lparr>Name = ''docs.rinawarptech.com.'', Type = ''A'', TTL = 1,
                                 ResourceRecords = [''203.0.113.7'']\<rparr>\<rparr>"
proof -
  have t: "cf_type docs_cname = ''CNAME''" by (simp add: docs_cname_def)
  have c: "in_str ''railway.app'' (cf_content docs_cname)"
    by (simp add: docs_cname_def startswith_def)
  show ?thesis
    using railway_cname_conversion [OF t c, of one_answer "''rinawarptech.com''"]
    by (simp add: docs_cname_def one_answer_def r53_name_def endswith_def get_ttl_def)
qed

subsection \<open>TXT records\<close>

text \<open>
  Claim C2 says that the value emitted for a TXT record is always the content wrapped
  in exactly one pair of double quotes, whatever quotes the content already has. It
  fails for a content that ends with a double quote without starting with one: the
  content \<open>abc"\<close> is emitted with one quote in front and two at the end.
\<close>

theorem txt_one_pair_counterexample:
  "cloudflare_to_route53_record no_answer txt_trailing_quote ''rinawarptech.com'' =
     Some \<lparr>Action = ''UPSERT'',
           ResourceRecordSet = \<lparr>Name = ''rinawarptech.com.'', Type = ''TXT'', TTL = 300,
                                 ResourceRecords = [[dquote] @ ''abc'' @ [dquote, dquote]]\<rparr>\<rparr>
   \<and> \<not> quoted_once ([dquote] @ ''abc'' @ [dquote, dquote])"
  by (simp add: cloudflare_to_route53_record_def txt_trailing_quote_def txt_plain_def
      r53_name_def get_ttl_def txt_value_def startswith_def endswith_def quoted_once_def dquote_def)

text \<open>
  Claim C2, amended: the value emitted for a TXT record always starts with a double
  quote and ends with a double quote. It is the content itself when the content
  already starts and ends with a double quote, the content followed by one double
  quote when it starts with one but does not end with one, and the content between two
  added double quotes when it does not start with one. A content with no double quote
  at either end is therefore wrapped in exactly one pair.
\<close>

theorem txt_value_quoted:
  assumes "cf_type cf = ''TXT''"
  shows "cloudflare_to_route53_record g cf zone_name =
           Some \<lparr>Action = ''UPSERT'',
                 ResourceRecordSet = \<lparr>Name = r53_name cf zone_name, Type = ''TXT'',
                                       TTL = get_ttl cf,
                                       ResourceRecords = [txt_value (cf_content cf)]\<rparr>\<rparr>
       \<and> startswith (txt_value (cf_content cf)) [dquote]
       \<and> endswith (txt_value (cf_content cf)) [dquote]
       \<and> txt_value (cf_content cf) =
           (if startswith (cf_content cf) [dquote]
            then (if endswith (cf_content cf) [dquote] then cf_content cf
                  else cf_content cf @ [dquote])
            else [dquote] @ cf_content cf @ [dquote])
       \<and> (\<not> startswith (cf_content cf) [dquote] \<and> \<not> endswith (cf_content cf) [dquote]
            \<longrightarrow> quoted_once (txt_value (cf_content cf)))"
proof -
  have "cloudflare_to_route53_record g cf zone_name =
           Some \<lparr>Action = ''UPSERT'',
                 ResourceRecordSet = \<lparr>Name = r53_name cf zone_name, Type = ''TXT'',
                                       TTL = get_ttl cf,
                                       ResourceRecords = [txt_value (cf_content cf)]\<rparr>\<rparr>"
    using assms by (simp add: cloudflare_to_route53_record_def)
  then show ?thesis
    using txt_value_starts txt_value_ends txt_value_cases txt_value_quoted_once by simp
qed

theorem txt_value_quoted_witness:
  "cloudflare_to_route53_record no_answer txt_plain ''rinawarptech.com'' =
     Some \<lparr>Action = ''UPSERT'',
           ResourceRecordSet = \<lparr>Name = ''rinawarptech.com.'', Type = ''TXT'', TTL = 300,
                                 ResourceRecords = [[dquote] @ ''v=spf1 -all'' @ [dquote]]\<rparr>\<rparr>
   \<and> quoted_once ([dquote] @ ''v=spf1 -all'' @ [dquote])"
proof -
  have t: "cf_type txt_plain = ''TXT''" by (simp add: txt_plain_def)
  show ?thesis
    using txt_value_quoted [OF t, of no_answer "''rinawarptech.com''"]
    by (simp add: txt_plain_def r53_name_def get_ttl_def txt_value_def quoted_once_def
        startswith_def endswith_def dquote_def)
qed

subsection \<open>NS and SOA records\<close>

text \<open>
  Claim C4: for a source record of type NS or SOA whose name is the zone apex,
  \<open>cloudflare_to_route53_record\<close> returns \<open>None\<close>, and the change list built by
  \<open>main\<close> is the one built without that record: no change corresponds to it.
\<close>

theorem ns_soa_at_apex_dropped:
  assumes "cf_type cf = ''NS'' \<or> cf_type cf = ''SOA''" and "cf_name cf = zone_name"
  shows "cloudflare_to_route53_record g cf zone_name = None
       \<and> (zone_name = ZONE_NAME \<longrightarrow>
            fst (convert_loop g (pre @ cf # post) [] []) = fst (convert_loop g (pre @ post) [] []))"
proof -
  have none: "cloudflare_to_route53_record g cf zone_name = None"
    using assms(1) by (rule ns_soa_none)
  have "cloudflare_to_route53_record g cf ZONE_NAME = None"
    using assms(1) by (rule ns_soa_none)
  moreover have "\<not> (cf_type cf = ''CNAME'')"
    using assms(1) by auto
  ultimately have
    "fst (convert_loop g (pre @ cf # post) [] []) = fst (convert_loop g (pre @ post) [] [])"
    by (simp add: convert_loop_filter map_filter_def)
  with none show ?thesis by simp
qed

theorem ns_soa_at_apex_dropped_witness:
  "cloudflare_to_route53_record no_answer apex_ns ''rinawarptech.com'' = None
   \<and> fst (convert_loop no_answer [txt_plain, apex_ns, docs_cname] [] [])
       = fst (convert_loop no_answer [txt_plain, docs_cname] [] [])"
proof -
  have t: "cf_type apex_ns = ''NS'' \<or> cf_type apex_ns = ''SOA''" by (simp add: apex_ns_def)
  have n: "cf_name apex_ns = ''rinawarptech.com''" by (simp add: apex_ns_def)
  show ?thesis
    using ns_soa_at_apex_dropped [OF t n, of no_answer "[txt_plain]" "[docs_cname]"]
    by (simp add: ZONE_NAME_def)
qed

subsection \<open>CNAME records at the apex\<close>

text \<open>
  Claim C10: the loop of \<open>main\<close> puts every record of type CNAME whose name is the
  zone name into \<open>skipped_records\<close> and converts only the other records, whatever
  the content of the skipped ones. Hence the change list does not depend on what the
  resolver answers for the target of a record at the apex: the conversion of a CNAME
  to an A record is never applied to such a record.
\<close>

theorem apex_cname_skipped:
  "convert_loop g records [] [] =
     (List.map_filter (\<lambda>r. cloudflare_to_route53_record g r ZONE_NAME)
        (filter (\<lambda>r. \<not> (cf_type r = ''CNAME'' \<and> cf_name r = ZONE_NAME)) records),
      filter (\<lambda>r. cf_type r = ''CNAME'' \<and> cf_name r = ZONE_NAME) records)
   \<and> ((\<forall>r \<in> set records. cf_name r \<noteq> ZONE_NAME \<longrightarrow> g (cf_content r) = g' (cf_content r))
        \<longrightarrow> convert_loop g records [] [] = convert_loop g' records [] [])"
proof (intro conjI impI)
  show "convert_loop g records [] [] =
     (List.map_filter (\<lambda>r. cloudflare_to_route53_record g r ZONE_NAME)
        (filter (\<lambda>r. \<not> (cf_type r = ''CNAME'' \<and> cf_name r = ZONE_NAME)) records),
      filter (\<lambda>r. cf_type r = ''CNAME'' \<and> cf_name r = ZONE_NAME) records)"
    by (simp add: convert_loop_filter)
next
  assume agree:
    "\<forall>r \<in> set records. cf_name r \<noteq> ZONE_NAME \<longrightarrow> g (cf_content r) = g' (cf_content r)"
  have "cloudflare_to_route53_record g r ZONE_NAME = cloudflare_to_route53_record g' r ZONE_NAME"
    if "r \<in> set (filter (\<lambda>r. \<not> (cf_type r = ''CNAME'' \<and> cf_name r = ZONE_NAME)) records)"
    for r
  proof (cases "cf_name r = ZONE_NAME")
    case True
    with that have "cf_type r \<noteq> ''CNAME''" by simp
    then show ?thesis by (rule conv_not_cname)
  next
    case False
    with that agree have "g (cf_content r) = g' (cf_content r)" by simp
    then show ?thesis by (rule conv_cong)
  qed
  then have "List.map_filter (\<lambda>r. cloudflare_to_route53_record g r ZONE_NAME)
        (filter (\<lambda>r. \<not> (cf_type r = ''CNAME'' \<and> cf_name r = ZONE_NAME)) records)
     = List.map_filter (\<lambda>r. cloudflare_to_route53_record g' r ZONE_NAME)
        (filter (\<lambda>r. \<not> (cf_type r = ''CNAME'' \<and> cf_name r = ZONE_NAME)) records)"
    by (rule map_filter_agree)
  then show "convert_loop g records [] [] = convert_loop g' records [] []"
    by (simp only: convert_loop_filter)
qed

theorem apex_cname_skipped_witness:
  "convert_loop one_answer [apex_cname, docs_cname, apex_ns] [] [] =
     ([\<lparr>Action = ''UPSERT'',
        ResourceRecordSet = \<lparr>Name = ''docs.rinawarptech.com.'', Type = ''A'', TTL = 1,
                              ResourceRecords = [''203.0.113.7'']\<rparr>\<rparr>],
      [apex_cname])
   \<and> convert_loop one_answer [apex_cname, docs_cname, apex_ns] [] []
       = convert_loop no_answer_at_apex [apex_cname, docs_cname, apex_ns] [] []"
proof -
  note skipped =
    apex_cname_skipped [of one_answer "[apex_cname, docs_cname, apex_ns]" no_answer_at_apex]
  have agree: "\<forall>r \<in> set [apex_cname, docs_cname, apex_ns].
      cf_name r \<noteq> ZONE_NAME \<longrightarrow> one_answer (cf_content r) = no_answer_at_apex (cf_content r)"
    by (simp add: ZONE_NAME_def apex_cname_def docs_cname_def apex_ns_def one_answer_def
        no_answer_at_apex_def)
  have eval:
    "(List.map_filter (\<lambda>r. cloudflare_to_route53_record one_answer r ZONE_NAME)
        (filter (\<lambda>r. \<not> (cf_type r = ''CNAME'' \<and> cf_name r = ZONE_NAME))
           [apex_cname, docs_cname, apex_ns]),
      filter (\<lambda>r. cf_type r = ''CNAME'' \<and> cf_name r = ZONE_NAME)
        [apex_cname, docs_cname, apex_ns])
     = ([\<lparr>Action = ''UPSERT'',
          ResourceRecordSet = \<lparr>Name = ''docs.rinawarptech.com.'', Type = ''A'', TTL = 1,
                                ResourceRecords = [''203.0.113.7'']\<rparr>\<rparr>],
        [apex_cname])"
    by (simp add: ZONE_NAME_def apex_cname_def docs_cname_def apex_ns_def one_answer_def
        map_filter_def cloudflare_to_route53_record_def resolve_railway_cname_def
        r53_name_def endswith_def startswith_def get_ttl_def)
  show ?thesis
    using skipped [THEN conjunct1] skipped [THEN conjunct2, THEN mp, OF agree] eval
    by (simp only:)
qed

subsection \<open>Idempotence of the reconciliation\<close>

lemma conv_action:
  "cloudflare_to_route53_record g cf zone_name = Some c \<Longrightarrow> Action c = ''UPSERT''"
  by (auto simp: cloudflare_to_route53_record_def resolve_railway_cname_def Let_def
      split: if_splits option.splits)

lemma apply_change_add: "apply_change c z = z ++ apply_change c Map.empty"
  by (simp add: apply_change_def)

lemma apply_changes_add: "apply_changes cs z = z ++ apply_changes cs Map.empty"
proof (induction cs arbitrary: z)
  case Nil
  then show ?case by (simp add: apply_changes_def)
next
  case (Cons c cs)
  have "apply_changes (c # cs) z = apply_changes cs (apply_change c z)"
    by (simp add: apply_changes_def)
  also have "\<dots> = apply_change c z ++ apply_changes cs Map.empty"
    by (rule Cons.IH)
  also have "\<dots> = z ++ (apply_change c Map.empty ++ apply_changes cs Map.empty)"
    by (subst apply_change_add) simp
  also have "apply_change c Map.empty ++ apply_changes cs Map.empty
      = apply_changes cs (apply_change c Map.empty)"
    by (rule Cons.IH [symmetric])
  also have "\<dots> = apply_changes (c # cs) Map.empty"
    by (simp add: apply_changes_def)
  finally show ?case .
qed

lemma map_add_twice: "(z ++ m) ++ m = z ++ m"
  by (auto simp: map_add_def fun_eq_iff split: option.splits)

lemma apply_changes_twice: "apply_changes cs (apply_changes cs z) = apply_changes cs z"
proof -
  have "apply_changes cs (apply_changes cs z) = apply_changes cs z ++ apply_changes cs Map.empty"
    by (rule apply_changes_add)
  also have "\<dots> = (z ++ apply_changes cs Map.empty) ++ apply_changes cs Map.empty"
    by (subst apply_changes_add [of cs z]) (rule refl)
  also have "\<dots> = z ++ apply_changes cs Map.empty"
    by (rule map_add_twice)
  also have "\<dots> = apply_changes cs z"
    by (rule apply_changes_add [symmetric])
  finally show ?thesis .
qed

text \<open>
  Claim C9: every change emitted by \<open>cloudflare_to_route53_record\<close>, the A record
  of the CNAME conversion included, has the action \<open>UPSERT\<close>; so has every change
  of the list built by \<open>main\<close>. Applying that list to a zone that it has already
  been applied to leaves the zone as it is: a second run against an unchanged source
  (the same records and the same resolver answers, hence the same list) makes no net
  change.
\<close>

theorem reconciliation_idempotent:
  "(\<forall>c. cloudflare_to_route53_record g cf zone_name = Some c \<longrightarrow> Action c = ''UPSERT'')
   \<and> (\<forall>c \<in> set (fst (convert_loop g records [] [])). Action c = ''UPSERT'')
   \<and> apply_changes (fst (convert_loop g records [] []))
         (apply_changes (fst (convert_loop g records [] [])) z)
       = apply_changes (fst (convert_loop g records [] [])) z"
proof (intro conjI allI impI ballI)
  fix c assume "cloudflare_to_route53_record g cf zone_name = Some c"
  then show "Action c = ''UPSERT''" by (rule conv_action)
next
  fix c assume "c \<in> set (fst (convert_loop g records [] []))"
  then obtain r where "cloudflare_to_route53_record g r ZONE_NAME = Some c"
    by (auto simp: convert_loop_filter map_filter_def)
  then show "Action c = ''UPSERT''" by (rule conv_action)
next
  show "apply_changes (fst (convert_loop g records [] []))
         (apply_changes (fst (convert_loop g records [] [])) z)
       = apply_changes (fst (convert_loop g records [] [])) z"
    by (rule apply_changes_twice)
qed

theorem reconciliation_idempotent_witness:
  "Action upsert_docs = ''UPSERT''
   \<and> apply_changes [upsert_docs] (apply_changes [upsert_docs] Map.empty)
       = apply_changes [upsert_docs] Map.empty
   \<and> apply_changes [upsert_docs] Map.empty (''docs.rinawarptech.com.'', ''A'')
       = Some (ResourceRecordSet upsert_docs)"
proof -
  have run: "fst (convert_loop one_answer [apex_cname, docs_cname, apex_ns] [] []) = [upsert_docs]"
    by (simp add: ZONE_NAME_def apex_cname_def docs_cname_def apex_ns_def one_answer_def
        upsert_docs_def cloudflare_to_route53_record_def resolve_railway_cname_def
        r53_name_def endswith_def startswith_def get_ttl_def)
  have conv: "cloudflare_to_route53_record one_answer docs_cname ZONE_NAME = Some upsert_docs"
    by (simp add: ZONE_NAME_def docs_cname_def one_answer_def
        upsert_docs_def cloudflare_to_route53_record_def resolve_railway_cname_def
        r53_name_def endswith_def startswith_def get_ttl_def)
  have stored: "apply_changes [upsert_docs] Map.empty (''docs.rinawarptech.com.'', ''A'')
       = Some (ResourceRecordSet upsert_docs)"
    by (simp add: apply_changes_def apply_change_def upsert_docs_def)
  show ?thesis
    using reconciliation_idempotent
      [of one_answer docs_cname ZONE_NAME "[apex_cname, docs_cname, apex_ns]" Map.empty]
      run conv stored
    by simp
qed

section \<open>Batches of changes\<close>

lemma concat_slices:
  "0 < step \<Longrightarrow>
   concat (map (\<lambda>i. slice xs i (i + step)) (py_range i (length xs) step)) = drop i xs"
proof (induction i "length xs" step rule: py_range.induct)
  case (1 i step)
  show ?case
  proof (cases "i < length xs")
    case True
    have "drop (i + step) xs = drop step (drop i xs)"
      by (simp add: add.commute)
    then have "take step (drop i xs) @ drop (i + step) xs = drop i xs"
      by (simp only: append_take_drop_id)
    with True 1 show ?thesis
      by (subst py_range.simps) (simp add: slice_def)
  next
    case False
    then show ?thesis by (subst py_range.simps) simp
  qed
qed

lemma py_range_bound: "i' \<in> set (py_range i stop step) \<Longrightarrow> i' < stop"
proof (induction i stop step rule: py_range.induct)
  case (1 i stop step)
  then show ?case
    by (subst (asm) (2) py_range.simps) (auto split: if_splits)
qed

lemma concat_batches: "concat (batches records) = records"
  using concat_slices [of batch_size records 0] by (simp add: batches_def batch_size_def)

lemma batches_bounded:
  "b \<in> set (batches records) \<Longrightarrow> length b \<le> 100 \<and> b \<noteq> []"
  by (auto simp: batches_def slice_def batch_size_def dest: py_range_bound)

lemma send_batches_ok:
  "(\<forall>b \<in> set bs. api zone_id b = None) \<Longrightarrow>
   send_batches api zone_id bs = (map (Pair zone_id) bs, None)"
  by (induction bs) simp_all

text \<open>
  Claim C8: \<open>sync_to_route53\<close> cuts the list of changes into consecutive batches
  of at most 100 changes, none of them empty, whose concatenation is the input list;
  when the calls return, it makes exactly one \<open>change_resource_record_sets\<close> call
  per batch, in order, so that the batches of the calls concatenated in call order
  are the input list.
\<close>

theorem sync_to_route53_batches:
  "concat (batches records) = records
   \<and> (\<forall>b \<in> set (batches records). length b \<le> 100 \<and> b \<noteq> [])
   \<and> ((\<forall>b \<in> set (batches records). api zone_id b = None) \<longrightarrow>
        sync_to_route53 api records zone_id = (map (Pair zone_id) (batches records), None)
        \<and> concat (map snd (fst (sync_to_route53 api records zone_id))) = records)"
  using concat_batches [of records] batches_bounded [of _ records]
  by (simp add: sync_to_route53_def send_batches_ok comp_def)

theorem sync_to_route53_batches_witness:
  "sync_to_route53 always_ok (replicate 250 upsert_docs) ROUTE53_ZONE_ID =
     ([(ROUTE53_ZONE_ID, replicate 100 upsert_docs),
       (ROUTE53_ZONE_ID, replicate 100 upsert_docs),
       (ROUTE53_ZONE_ID, replicate 50 upsert_docs)], None)"
proof -
  have b: "batches (replicate 250 upsert_docs) =
      [replicate 100 upsert_docs, replicate 100 upsert_docs, replicate 50 upsert_docs]"
    by (simp add: batches_def batch_size_def slice_def py_range.simps)
  have ok: "\<forall>b \<in> set (batches (replicate 250 upsert_docs)). always_ok ROUTE53_ZONE_ID b = None"
    by (simp add: always_ok_def)
  show ?thesis
    using sync_to_route53_batches [of "replicate 250 upsert_docs" always_ok ROUTE53_ZONE_ID] ok b
    by simp
qed

section \<open>Credential retrieval\<close>

lemma get_cloudflare_token_cases:
  "(\<forall>e. kubectl = Inl e \<and> exn_class e = CalledProcessError \<longrightarrow>
       get_cloudflare_token kubectl decode_secret env = Inr (env ''CLOUDFLARE_API_TOKEN''))
   \<and> (\<forall>e. kubectl = Inl e \<and> exn_class e \<noteq> CalledProcessError \<longrightarrow>
       get_cloudflare_token kubectl decode_secret env = Inl e)
   \<and> (\<forall>out token. kubectl = Inr out \<and> decode_secret out = Inr token \<longrightarrow>
       get_cloudflare_token kubectl decode_secret env = Inr (Some token))"
  by (simp add: get_cloudflare_token_def)

text \<open>
  Claim C7: \<open>get_cloudflare_token\<close> first tries the Kubernetes secret and, whenever
  that call fails, falls back to the environment variable \<open>CLOUDFLARE_API_TOKEN\<close>
  instead of raising. The comments of the function say so (\<open>Try to get from Kubernetes
  secret first\<close>, \<open>Fall back to environment variable\<close>), but its handler names
  \<open>subprocess.CalledProcessError\<close> only. On a machine without \<open>kubectl\<close> the call
  fails with \<open>FileNotFoundError\<close>: the variable is set, and the function raises
  instead of returning its value.
\<close>

theorem token_fallback_missed:
  "env_with_token ''CLOUDFLARE_API_TOKEN'' = Some ''tok''
   \<and> get_cloudflare_token kubectl_missing decode_tok env_with_token
       = Inl (Raise FileNotFoundError ''[Errno 2] No such file or directory: 'kubectl' '')
   \<and> get_cloudflare_token kubectl_missing decode_tok env_with_token
       \<noteq> Inr (env_with_token ''CLOUDFLARE_API_TOKEN'')"
  by (simp add: get_cloudflare_token_def kubectl_missing_def env_with_token_def)

section \<open>The certificate polling loop\<close>

lemma poll_stops:
  assumes "poll_certificate trace describe = Some y"
  shows "\<exists>x \<in> sset describe. leaves_loop x"
proof (rule poll_certificate.raw_induct [where P = "\<lambda>t d r. \<exists>x \<in> sset d. leaves_loop x"])
  show "poll_certificate trace describe = Some y" by (rule assms)
next
  fix poll :: "poll_event list \<Rightarrow> (exn + string) stream \<Rightarrow> (poll_result \<times> poll_event list) option"
  fix t d r
  assume IH: "\<And>t' d' r'. poll t' d' = Some r' \<Longrightarrow> \<exists>x \<in> sset d'. leaves_loop x"
  assume step: "(case shd d of
        Inl e \<Rightarrow>
          if is_Exception e then Some (Check_error e, t @ [Describe_certificate])
          else Some (Propagated e, t @ [Describe_certificate])
      | Inr status \<Rightarrow>
          if status = ''ISSUED'' then Some (Validated, t @ [Describe_certificate])
          else if status = ''FAILED'' then Some (Validation_failed, t @ [Describe_certificate])
          else poll (t @ [Describe_certificate, Sleep 30]) (stl d)) = Some r"
  show "\<exists>x \<in> sset d. leaves_loop x"
  proof (cases "leaves_loop (shd d)")
    case True
    have "shd d \<in> sset d" by (rule shd_sset)
    then show ?thesis using True by (rule rev_bexI)
  next
    case False
    then obtain status where s: "shd d = Inr status" "status \<noteq> ''ISSUED''" "status \<noteq> ''FAILED''"
      by (cases "shd d") (simp_all add: leaves_loop_def)
    with step have "poll (t @ [Describe_certificate, Sleep 30]) (stl d) = Some r"
      by simp
    then have "\<exists>x \<in> sset (stl d). leaves_loop x"
      by (rule IH)
    then obtain x where m: "x \<in> sset (stl d)" and l: "leaves_loop x" ..
    from m have "x \<in> sset d" by (rule stl_sset)
    then show ?thesis using l by (rule rev_bexI)
  qed
qed

lemma poll_continue:
  "status \<noteq> ''ISSUED'' \<Longrightarrow> status \<noteq> ''FAILED'' \<Longrightarrow>
   poll_certificate trace (Inr status ## rest)
     = poll_certificate (trace @ [Describe_certificate, Sleep 30]) rest"
  by (subst poll_certificate.simps) simp

lemma poll_issued:
  "poll_certificate trace (Inr ''ISSUED'' ## rest) = Some (Validated, trace @ [Describe_certificate])"
  by (subst poll_certificate.simps) simp

lemma poll_failed:
  "poll_certificate trace (Inr ''FAILED'' ## rest)
     = Some (Validation_failed, trace @ [Describe_certificate])"
  by (subst poll_certificate.simps) simp

text \<open>
  Claim C5, for the polling loop of \<open>cleanup_dns.py\<close>: when the statuses fetched are
  \<open>PENDING_VALIDATION\<close>, \<open>PENDING_VALIDATION\<close>, \<open>ISSUED\<close>, the loop ends in
  its success branch after exactly three describe calls and two sleeps, whatever
  would have been fetched afterwards; when they are \<open>PENDING_VALIDATION\<close>,
  \<open>FAILED\<close>, it ends in its failure branch after two describe calls and one sleep.
  A status other than \<open>ISSUED\<close> and \<open>FAILED\<close> makes the loop sleep and go on
  with the next round, and a run in which no round leaves the loop never ends.
\<close>

theorem certificate_polling:
  "poll_certificate [] (Inr ''PENDING_VALIDATION'' ## Inr ''PENDING_VALIDATION'' ## Inr ''ISSUED'' ## rest)
     = Some (Validated, [Describe_certificate, Sleep 30, Describe_certificate, Sleep 30,
                         Describe_certificate])
   \<and> observations [Describe_certificate, Sleep 30, Describe_certificate, Sleep 30,
                    Describe_certificate] = 3
   \<and> waits [Describe_certificate, Sleep 30, Describe_certificate, Sleep 30,
             Describe_certificate] = 2
   \<and> poll_certificate [] (Inr ''PENDING_VALIDATION'' ## Inr ''FAILED'' ## rest)
     = Some (Validation_failed, [Describe_certificate, Sleep 30, Describe_certificate])
   \<and> observations [Describe_certificate, Sleep 30, Describe_certificate] = 2
   \<and> waits [Describe_certificate, Sleep 30, Describe_certificate] = 1
   \<and> (status \<noteq> ''ISSUED'' \<and> status \<noteq> ''FAILED'' \<longrightarrow>
        poll_certificate trace (Inr status ## describe)
          = poll_certificate (trace @ [Describe_certificate, Sleep 30]) describe)
   \<and> ((\<forall>x \<in> sset describe. \<not> leaves_loop x) \<longrightarrow> poll_certificate trace describe = None)"
proof (intro conjI impI)
  show "poll_certificate [] (Inr ''PENDING_VALIDATION'' ## Inr ''PENDING_VALIDATION'' ## Inr ''ISSUED'' ## rest)
     = Some (Validated, [Describe_certificate, Sleep 30, Describe_certificate, Sleep 30,
                         Describe_certificate])"
    by (simp add: poll_continue poll_issued)
  show "poll_certificate [] (Inr ''PENDING_VALIDATION'' ## Inr ''FAILED'' ## rest)
     = Some (Validation_failed, [Describe_certificate, Sleep 30, Describe_certificate])"
    by (simp add: poll_continue poll_failed)
  show "observations [Describe_certificate, Sleep 30, Describe_certificate, Sleep 30,
                    Describe_certificate] = 3"
    by (simp add: observations_def)
  show "waits [Describe_certificate, Sleep 30, Describe_certificate, Sleep 30,
             Describe_certificate] = 2"
    by (simp add: waits_def)
  show "observations [Describe_certificate, Sleep 30, Describe_certificate] = 2"
    by (simp add: observations_def)
  show "waits [Describe_certificate, Sleep 30, Describe_certificate] = 1"
    by (simp add: waits_def)
next
  assume "status \<noteq> ''ISSUED'' \<and> status \<noteq> ''FAILED''"
  then show "poll_certificate trace (Inr status ## describe)
          = poll_certificate (trace @ [Describe_certificate, Sleep 30]) describe"
    by (simp add: poll_continue)
next
  assume never: "\<forall>x \<in> sset describe. \<not> leaves_loop x"
  show "poll_certificate trace describe = None"
  proof (rule ccontr)
    assume "poll_certificate trace describe \<noteq> None"
    then obtain y where "poll_certificate trace describe = Some y" by auto
    then have "\<exists>x \<in> sset describe. leaves_loop x" by (rule poll_stops)
    then obtain x where "x \<in> sset describe" and "leaves_loop x" ..
    with never show False by simp
  qed
qed


theorem certificate_polling_witness:
  "poll_certificate [] (sconst (Inr ''PENDING_VALIDATION'')) = None
   \<and> poll_certificate [] (Inr ''PENDING_VALIDATION'' ## sconst (Inr ''ISSUED''))
       = poll_certificate [Describe_certificate, Sleep 30] (sconst (Inr ''ISSUED''))"
proof -
  have never: "\<forall>x \<in> sset (sconst (Inr ''PENDING_VALIDATION'' :: exn + string)). \<not> leaves_loop x"
    by (simp add: leaves_loop_def)
  have pending: "''PENDING_VALIDATION'' \<noteq> ''ISSUED'' \<and> ''PENDING_VALIDATION'' \<noteq> ''FAILED''"
    by simp
  show ?thesis
    using certificate_polling [of "sconst (Inr ''ISSUED'')" "''PENDING_VALIDATION''" "[]"
                 "sconst (Inr ''PENDING_VALIDATION'')"]
          certificate_polling [of "sconst (Inr ''ISSUED'')" "''PENDING_VALIDATION''" "[]"
                 "sconst (Inr ''ISSUED'')"]
          never pending
    by simp
qed

section \<open>Create or update\<close>

lemma find_record_id_find:
  "find_record_id full_name type rs =
     map_option cf_id (find (\<lambda>r. cf_name r = full_name \<and> cf_type r = type) rs)"
  by (induction rs) simp_all

text \<open>
  Claim C6: each \<open>update_dns_record\<close> first looks the record up by name and type.
  In \<open>update_cloudflare_dns.py\<close> the lookup sends the name and the type of the
  payload as query parameters; when the reply is successful and not empty, the record
  is updated with a PUT to the id of the first record of the reply, and otherwise it
  is created with a POST. In \<open>update_cloudfront_dns.py\<close> the lookup lists the zone
  and takes the first record with the full name and the type of the payload; when
  there is one, the record is updated with a PUT to the id of that record, and
  otherwise it is created with a POST. The identifiers of the provider are not empty.
\<close>

theorem create_or_update:
  "(\<forall>data. http (Get_dns_records zone_id (Some (p_name record, p_type record))) = Inr data \<longrightarrow>
      update_dns_record_cloudflare http zone_id record =
        (if success data \<and> result data \<noteq> []
         then ([Get_dns_records zone_id (Some (p_name record, p_type record)),
                Put_dns_record zone_id (cf_id (hd (result data))) record],
               http (Put_dns_record zone_id (cf_id (hd (result data))) record))
         else ([Get_dns_records zone_id (Some (p_name record, p_type record)),
                Post_dns_record zone_id record],
               http (Post_dns_record zone_id record))))
   \<and> (\<forall>data. http (Get_dns_records zone_id None) = Inr data
         \<and> (\<forall>r \<in> set (result data). cf_id r \<noteq> []) \<longrightarrow>
      update_dns_record_cloudfront http zone_id record =
        (case find (\<lambda>r. cf_name r = full_name_of record \<and> cf_type r = p_type record) (result data) of
           Some r \<Rightarrow>
             ([Get_dns_records zone_id None, Put_dns_record zone_id (cf_id r) record],
              http (Put_dns_record zone_id (cf_id r) record))
         | None \<Rightarrow>
             ([Get_dns_records zone_id None, Post_dns_record zone_id record],
              http (Post_dns_record zone_id record))))"
proof (intro conjI allI impI)
  fix data
  assume "http (Get_dns_records zone_id (Some (p_name record, p_type record))) = Inr data"
  then show "update_dns_record_cloudflare http zone_id record =
        (if success data \<and> result data \<noteq> []
         then ([Get_dns_records zone_id (Some (p_name record, p_type record)),
                Put_dns_record zone_id (cf_id (hd (result data))) record],
               http (Put_dns_record zone_id (cf_id (hd (result data))) record))
         else ([Get_dns_records zone_id (Some (p_name record, p_type record)),
                Post_dns_record zone_id record],
               http (Post_dns_record zone_id record)))"
    by (simp add: update_dns_record_cloudflare_def Let_def)
next
  fix data
  assume a: "http (Get_dns_records zone_id None) = Inr data
         \<and> (\<forall>r \<in> set (result data). cf_id r \<noteq> [])"
  show "update_dns_record_cloudfront http zone_id record =
        (case find (\<lambda>r. cf_name r = full_name_of record \<and> cf_type r = p_type record) (result data) of
           Some r \<Rightarrow>
             ([Get_dns_records zone_id None, Put_dns_record zone_id (cf_id r) record],
              http (Put_dns_record zone_id (cf_id r) record))
         | None \<Rightarrow>
             ([Get_dns_records zone_id None, Post_dns_record zone_id record],
              http (Post_dns_record zone_id record)))"
  proof (cases "find (\<lambda>r. cf_name r = full_name_of record \<and> cf_type r = p_type record) (result data)")
    case None
    with a show ?thesis
      by (simp add: update_dns_record_cloudfront_def find_record_id_find truthy_def)
  next
    case (Some r)
    then have "r \<in> set (result data)"
      by (auto simp: find_Some_iff)
    with a have "cf_id r \<noteq> []" by simp
    with a Some show ?thesis
      by (simp add: update_dns_record_cloudfront_def find_record_id_find truthy_def)
  qed
qed

theorem create_or_update_witness:
  "update_dns_record_cloudflare listing ''z1'' acm_record =
     ([Get_dns_records ''z1'' (Some (''_87dcf068b52efd9d35831bcc920b95ff'', ''CNAME'')),
       Put_dns_record ''z1'' ''f1aba936b94213e5b8dca0c0dbf1f9cc'' acm_record],
      Inr \<lparr>success = True, result = []\<rparr>)
   \<and> update_dns_record_cloudfront listing ''z1'' docs_payload =
     ([Get_dns_records ''z1'' None,
       Put_dns_record ''z1'' ''372e67954025e0ba6aaa6d586b9e0b59'' docs_payload],
      Inr \<lparr>success = True, result = []\<rparr>)
   \<and> update_dns_record_cloudfront listing ''z1'' www_payload =
     ([Get_dns_records ''z1'' None, Post_dns_record ''z1'' www_payload],
      Inr \<lparr>success = True, result = []\<rparr>)"
proof -
  have ids: "\<forall>r \<in> set (result \<lparr>success = True, result = [apex_ns, docs_cname, acm_entry]\<rparr>).
      cf_id r \<noteq> []"
    by (simp add: apex_ns_def docs_cname_def acm_entry_def)
  show ?thesis
    using create_or_update [of listing "''z1''" acm_record]
      create_or_update [of listing "''z1''" docs_payload]
      create_or_update [of listing "''z1''" www_payload] ids
    by (simp add: listing_def acm_record_def docs_payload_def www_payload_def apex_ns_def
        docs_cname_def acm_entry_def full_name_of_def)
qed

section \<open>Exit status\<close>



lemma exit_code_uncaught_Exception: "is_Exception e \<Longrightarrow> exit_code (uncaught printed e) = 1"
  by (simp add: uncaught_def)

lemma handle_error_caught:
  "is_Exception e \<Longrightarrow> handle_error printed e = finished (printed @ [''Error: '' @ str_exn e])"
  by (simp add: handle_error_def)

lemma handle_error_uncaught: "\<not> is_Exception e \<Longrightarrow> handle_error printed e = uncaught printed e"
  by (simp add: handle_error_def)

lemma is_Exception_Raise [simp]: "is_Exception (Raise Exception m)"
  by (simp add: is_Exception_def)










lemma sync_main_cases:
  "sync_main w = finished []
   \<or> (\<exists>e. is_Exception e \<and> sync_main w = finished [''Error: '' @ str_exn e])
   \<or> (\<exists>e. \<not> is_Exception e \<and> sync_main w = uncaught [] e)"
  by (cases "sync_main_try w") (auto simp: sync_main_def handle_error_def)







lemma for_each_guarded_first_escapes:
  "body x = Inl e \<Longrightarrow> \<not> is_Exception e \<Longrightarrow> for_each_guarded body handler (x # xs) = ([], Some e)"
  by simp























lemma run_aws_command_fails:
  "shd shell command = Inr c \<Longrightarrow> returncode c \<noteq> 0 \<Longrightarrow>
   run_aws_command loads command shell = ([''Error running command: '' @ stderr c], Inr None, stl shell)"
  by (simp add: run_aws_command_def)










lemma poll_loop_uninterrupted_Some:
  assumes "poll_loop trace describe sleeps = Some r" and "sleeps = sconst None"
  shows "poll_certificate trace describe = Some r"
proof -
  have "sleeps = sconst None \<longrightarrow> poll_certificate trace describe = Some r"
  proof (rule poll_loop.raw_induct
      [where P = "\<lambda>t d s r. s = sconst None \<longrightarrow> poll_certificate t d = Some r"])
    show "poll_loop trace describe sleeps = Some r" by (rule assms)
  next
    fix poll :: "poll_event list \<Rightarrow> (exn + string) stream \<Rightarrow> exn option stream
        \<Rightarrow> (poll_result \<times> poll_event list) option"
    fix t d s r
    assume IH: "\<And>t' d' s' r'. poll t' d' s' = Some r' \<Longrightarrow>
        s' = sconst None \<longrightarrow> poll_certificate t' d' = Some r'"
    assume step: "(case shd d of
          Inl e \<Rightarrow>
            if is_Exception e then Some (Check_error e, t @ [Describe_certificate])
            else Some (Propagated e, t @ [Describe_certificate])
        | Inr status \<Rightarrow>
            if status = ''ISSUED'' then Some (Validated, t @ [Describe_certificate])
            else if status = ''FAILED'' then Some (Validation_failed, t @ [Describe_certificate])
            else
              (case shd s of
                 Some e \<Rightarrow>
                   if is_Exception e
                   then Some (Check_error e, t @ [Describe_certificate, Sleep 30])
                   else Some (Propagated e, t @ [Describe_certificate, Sleep 30])
               | None \<Rightarrow> poll (t @ [Describe_certificate, Sleep 30]) (stl d) (stl s))) = Some r"
    show "s = sconst None \<longrightarrow> poll_certificate t d = Some r"
    proof
      assume s: "s = sconst None"
      show "poll_certificate t d = Some r"
      proof (cases "shd d")
        case (Inl e)
        with step show ?thesis by (subst poll_certificate.simps) simp
      next
        case (Inr status)
        show ?thesis
        proof (cases "status = ''ISSUED'' \<or> status = ''FAILED''")
          case True
          with Inr step show ?thesis by (subst poll_certificate.simps) auto
        next
          case False
          with Inr step s have "poll (t @ [Describe_certificate, Sleep 30]) (stl d) (stl s) = Some r"
            by simp
          then have "stl s = sconst None \<longrightarrow>
              poll_certificate (t @ [Describe_certificate, Sleep 30]) (stl d) = Some r"
            by (rule IH)
          with s have "poll_certificate (t @ [Describe_certificate, Sleep 30]) (stl d) = Some r"
            by simp
          with Inr False show ?thesis by (subst poll_certificate.simps) simp
        qed
      qed
    qed
  qed
  with assms(2) show ?thesis by simp
qed

lemma poll_certificate_loop_Some:
  assumes "poll_certificate trace describe = Some r"
  shows "poll_loop trace describe (sconst None) = Some r"
proof (rule poll_certificate.raw_induct
    [where P = "\<lambda>t d r. poll_loop t d (sconst None) = Some r"])
  show "poll_certificate trace describe = Some r" by (rule assms)
next
  fix poll :: "poll_event list \<Rightarrow> (exn + string) stream \<Rightarrow> (poll_result \<times> poll_event list) option"
  fix t d r
  assume IH: "\<And>t' d' r'. poll t' d' = Some r' \<Longrightarrow> poll_loop t' d' (sconst None) = Some r'"
  assume step: "(case shd d of
        Inl e \<Rightarrow>
          if is_Exception e then Some (Check_error e, t @ [Describe_certificate])
          else Some (Propagated e, t @ [Describe_certificate])
      | Inr status \<Rightarrow>
          if status = ''ISSUED'' then Some (Validated, t @ [Describe_certificate])
          else if status = ''FAILED'' then Some (Validation_failed, t @ [Describe_certificate])
          else poll (t @ [Describe_certificate, Sleep 30]) (stl d)) = Some r"
  show "poll_loop t d (sconst None) = Some r"
  proof (cases "shd d")
    case (Inl e)
    with step show ?thesis by (subst poll_loop.simps) simp
  next
    case (Inr status)
    show ?thesis
    proof (cases "status = ''ISSUED'' \<or> status = ''FAILED''")
      case True
      with Inr step show ?thesis by (subst poll_loop.simps) auto
    next
      case False
      with Inr step have "poll (t @ [Describe_certificate, Sleep 30]) (stl d) = Some r"
        by simp
      then have "poll_loop (t @ [Describe_certificate, Sleep 30]) (stl d) (sconst None) = Some r"
        by (rule IH)
      with Inr False show ?thesis by (subst poll_loop.simps) simp
    qed
  qed
qed

lemma poll_loop_uninterrupted:
  "poll_loop trace describe (sconst None) = poll_certificate trace describe"
proof (cases "poll_certificate trace describe")
  case None
  show ?thesis
  proof (cases "poll_loop trace describe (sconst None)")
    case None
    with \<open>poll_certificate trace describe = None\<close> show ?thesis by simp
  next
    case (Some r)
    then have "poll_certificate trace describe = Some r"
      by (rule poll_loop_uninterrupted_Some) (rule refl)
    with None show ?thesis by simp
  qed
next
  case (Some r)
  then have "poll_loop trace describe (sconst None) = Some r"
    by (rule poll_certificate_loop_Some)
  with Some show ?thesis by simp
qed


lemma run_fail:
  "returncode c \<noteq> 0 \<Longrightarrow>
   run_aws_command loads command (sconst (\<lambda>command :: string. Inr c)) =
     ([''Error running command: '' @ stderr c], Inr None, sconst (\<lambda>command. Inr c))"
  by (simp add: run_aws_command_def)

lemma four: "replicate 4 x = [x, x, x, x]"
  by (simp add: numeral_eq_Suc)




lemma status_round_fail:
  "returncode c \<noteq> 0 \<Longrightarrow>
   status_round w [i1, i2, i3, i4] True (sconst (\<lambda>command. Inr c)) =
     (replicate 4 (''Error running command: '' @ stderr c), Inr True, sconst (\<lambda>command. Inr c))"
  by (simp add: run_fail four)














end
